theory Spec2Isabelle
  imports Main "HOL-Library.Word" "HOL-Library.Sublist"
begin

section \<open>The JavaScript executor and the shared session library\<close>

text \<open>
  The repository's generator script holds two Rust sources as text: the QuickJS-based
  executor (\<open>exec-javascript/src/lib.rs\<close>) and the shared session library
  (\<open>shared/src/lib.rs\<close>). This theory embeds the Rust of both. What the Rust calls
  outside the repository (the QuickJS binding, the clock, the UUID generator) is a
  parameter of the model, the record \<open>platform\<close>; the standard library's UTF-8 check
  is written out.
\<close>

subsection \<open>Data shapes\<close>

type_synonym byte = "8 word"
type_synonym u64 = "64 word"
type_synonym i32 = "32 word"

text \<open>The types of the interface package, as the Rust uses them.\<close>

datatype language = JavaScript | Python

record source_file =
  name :: string
  content :: "byte list"

record limits =
  time_ms :: "u64 option"
  memory_bytes :: "u64 option"

record stage_result =
  stdout :: string
  stderr :: string
  exit_code :: "i32 option"
  signal :: "i32 option"

text \<open>
  \<open>Result_\<close>: its fields \<open>time_ms\<close> and \<open>memory_bytes\<close> carry the same names as
  those of \<open>Limits\<close>; from here on the plain names are the result's, and the limits'
  are written \<open>limits.time_ms\<close> and \<open>limits.memory_bytes\<close>.
\<close>

record result =
  compile :: "stage_result option"
  run :: stage_result
  time_ms :: "u64 option"
  memory_bytes :: "u64 option"

text \<open>
  Modelled from the spec: the service \<open>Error\<close> variant is declared by the interface
  package, which is not among the sources. Its kinds are those of the spec's taxonomy;
  \<open>Internal\<close> (the spec's HostInternal) is the only one the Rust constructs.
\<close>

datatype error =
    ConfigurationError string
  | NotFound string
  | DecodeError string
  | Internal string
  | Timeout string

subsection \<open>Text and the standard library's UTF-8 check\<close>

text \<open>
  A Rust \<open>String\<close> is a byte buffer known to be UTF-8; \<open>string\<close> (a list of
  8-bit characters) holds the same bytes.
\<close>

definition byte_to_char :: "byte \<Rightarrow> char" where
  "byte_to_char b = char_of (unat b)"

definition char_to_byte :: "char \<Rightarrow> byte" where
  "char_to_byte c = of_nat (of_char c)"

definition as_bytes :: "string \<Rightarrow> byte list" where
  "as_bytes s = map char_to_byte s"

fun decimal :: "nat \<Rightarrow> string" where
  "decimal n =
     (if n < 10 then [char_of (48 + n)]
      else decimal (n div 10) @ [char_of (48 + n mod 10)])"

declare decimal.simps [simp del]

text \<open>
  \<open>Utf8Error\<close>: how many leading bytes are valid, and the length of the invalid
  sequence (\<open>None\<close> when the input ends inside a sequence).
\<close>

datatype utf8_error = Utf8Error (valid_up_to: nat) (error_len: "nat option")

definition is_continuation :: "byte \<Rightarrow> bool" where
  "is_continuation b = (0x80 \<le> b \<and> b \<le> 0xBF)"

definition second_of_three :: "byte \<Rightarrow> byte \<Rightarrow> bool" where
  "second_of_three first b =
     ((first = 0xE0 \<and> 0xA0 \<le> b \<and> b \<le> 0xBF) \<or>
      (0xE1 \<le> first \<and> first \<le> 0xEC \<and> 0x80 \<le> b \<and> b \<le> 0xBF) \<or>
      (first = 0xED \<and> 0x80 \<le> b \<and> b \<le> 0x9F) \<or>
      (0xEE \<le> first \<and> first \<le> 0xEF \<and> 0x80 \<le> b \<and> b \<le> 0xBF))"

definition second_of_four :: "byte \<Rightarrow> byte \<Rightarrow> bool" where
  "second_of_four first b =
     ((first = 0xF0 \<and> 0x90 \<le> b \<and> b \<le> 0xBF) \<or>
      (0xF1 \<le> first \<and> first \<le> 0xF3 \<and> 0x80 \<le> b \<and> b \<le> 0xBF) \<or>
      (first = 0xF4 \<and> 0x80 \<le> b \<and> b \<le> 0x8F))"

text \<open>
  The validation loop of \<open>core::str::from_utf8\<close>, at byte index \<open>i\<close>; \<open>None\<close>
  when the rest of the input is well-formed.
\<close>

fun run_utf8_validation :: "nat \<Rightarrow> byte list \<Rightarrow> utf8_error option" where
  "run_utf8_validation i [] = None"
| "run_utf8_validation i (first # rest) =
     (if first < 0x80 then run_utf8_validation (i + 1) rest
      else if 0xC2 \<le> first \<and> first \<le> 0xDF then
        (case rest of
           [] \<Rightarrow> Some (Utf8Error i None)
         | b1 # r1 \<Rightarrow>
             if is_continuation b1 then run_utf8_validation (i + 2) r1
             else Some (Utf8Error i (Some 1)))
      else if 0xE0 \<le> first \<and> first \<le> 0xEF then
        (case rest of
           [] \<Rightarrow> Some (Utf8Error i None)
         | b1 # r1 \<Rightarrow>
             if second_of_three first b1 then
               (case r1 of
                  [] \<Rightarrow> Some (Utf8Error i None)
                | b2 # r2 \<Rightarrow>
                    if is_continuation b2 then run_utf8_validation (i + 3) r2
                    else Some (Utf8Error i (Some 2)))
             else Some (Utf8Error i (Some 1)))
      else if 0xF0 \<le> first \<and> first \<le> 0xF4 then
        (case rest of
           [] \<Rightarrow> Some (Utf8Error i None)
         | b1 # r1 \<Rightarrow>
             if second_of_four first b1 then
               (case r1 of
                  [] \<Rightarrow> Some (Utf8Error i None)
                | b2 # r2 \<Rightarrow>
                    if is_continuation b2 then
                      (case r2 of
                         [] \<Rightarrow> Some (Utf8Error i None)
                       | b3 # r3 \<Rightarrow>
                           if is_continuation b3 then run_utf8_validation (i + 4) r3
                           else Some (Utf8Error i (Some 3)))
                    else Some (Utf8Error i (Some 2)))
             else Some (Utf8Error i (Some 1)))
      else Some (Utf8Error i (Some 1)))"

definition from_utf8 :: "byte list \<Rightarrow> utf8_error + string" where
  "from_utf8 bytes =
     (case run_utf8_validation 0 bytes of
        None \<Rightarrow> Inr (map byte_to_char bytes)
      | Some e \<Rightarrow> Inl e)"

fun utf8_error_to_string :: "utf8_error \<Rightarrow> string" where
  "utf8_error_to_string (Utf8Error i (Some n)) =
     ''invalid utf-8 sequence of '' @ decimal n @ '' bytes from index '' @ decimal i"
| "utf8_error_to_string (Utf8Error i None) =
     ''incomplete utf-8 byte sequence from index '' @ decimal i"

subsection \<open>Errors inside the executor\<close>

text \<open>
  An \<open>anyhow::Error\<close> is one of: a message built with \<open>anyhow!\<close>, a UTF-8 error, or
  an error of the QuickJS binding (kept as the text its \<open>Display\<close> prints).
\<close>

datatype anyhow_error =
    Anyhow string
  | FromUtf8Error utf8_error
  | QuickJsError string

fun to_string :: "anyhow_error \<Rightarrow> string" where
  "to_string (Anyhow m) = m"
| "to_string (FromUtf8Error e) = utf8_error_to_string e"
| "to_string (QuickJsError m) = m"

subsection \<open>The platform\<close>

text \<open>
  A JavaScript value as the executor looks at it: undefined, null, a string, or
  anything else (carried as the text \<open>{:?}\<close> prints for it).
\<close>

datatype js_value = Undefined | Null | JsString string | JsOther string

text \<open>
  How the evaluation of a program ends: with a value, with a value thrown by the
  program (kept as its text), or with another error of the binding (kept as the text
  its \<open>Display\<close> prints).
\<close>

datatype evaluation = Returned js_value | Thrown string | Failed string

text \<open>
  The error value the binding hands back, after version 0.4 of the binding, which the
  generated manifest asks for. A throw of the program is the variant \<open>Exception\<close>,
  which carries nothing: the thrown value stays behind in the context until
  \<open>Ctx::catch\<close> fetches it. \<open>display\<close> is the text \<open>{}\<close> prints.
\<close>

datatype rquickjs_error = Exception | OtherError string

fun display :: "rquickjs_error \<Rightarrow> string" where
  "display Exception = ''Exception generated by QuickJS''"
| "display (OtherError m) = m"

text \<open>
  What one call finds outside the repository. An \<open>option\<close> field is the error a
  construction step fails with (\<open>None\<close>: it succeeds). \<open>eval\<close> is the interpreter on
  a source text: \<open>None\<close> when the evaluation never returns, and how it ends
  otherwise.
  \<open>elapsed\<close> is the clock's reading, in milliseconds, when the evaluation is back;
  \<open>new_v4\<close> the text of the UUID drawn for a session.
\<close>

record platform =
  runtime_new :: "string option"
  context_full :: "string option"
  globals_set_console :: "string option"
  globals_get_console :: "string option"
  console_set_log :: "string option"
  eval :: "string \<Rightarrow> evaluation option"
  elapsed :: nat
  new_v4 :: string

text \<open>
  Runtime and context objects are numbered in the order of their construction, so
  that two uses of one object can be told from uses of two. The journal lists, for
  every evaluation started, the runtime and the context it ran on.
\<close>

record world =
  next_handle :: nat
  journal :: "(nat \<times> nat) list"

definition Runtime_new :: "platform \<Rightarrow> world \<Rightarrow> (string + nat) \<times> world" where
  "Runtime_new p w =
     (case runtime_new p of
        Some e \<Rightarrow> (Inl e, w)
      | None \<Rightarrow> (Inr (next_handle w), w\<lparr>next_handle := Suc (next_handle w)\<rparr>))"

definition Context_full :: "platform \<Rightarrow> nat \<Rightarrow> world \<Rightarrow> (string + nat) \<times> world" where
  "Context_full p rt w =
     (case context_full p of
        Some e \<Rightarrow> (Inl e, w)
      | None \<Rightarrow> (Inr (next_handle w), w\<lparr>next_handle := Suc (next_handle w)\<rparr>))"

definition ctx_eval ::
  "platform \<Rightarrow> nat \<Rightarrow> nat \<Rightarrow> string \<Rightarrow> world \<Rightarrow>
     ((rquickjs_error + js_value) \<times> world) option" where
  "ctx_eval p rt ctx code w =
     (case eval p code of
        None \<Rightarrow> None
      | Some (Returned v) \<Rightarrow> Some (Inr v, w\<lparr>journal := journal w @ [(rt, ctx)]\<rparr>)
      | Some (Thrown t) \<Rightarrow> Some (Inl Exception, w\<lparr>journal := journal w @ [(rt, ctx)]\<rparr>)
      | Some (Failed m) \<Rightarrow>
          Some (Inl (OtherError m), w\<lparr>journal := journal w @ [(rt, ctx)]\<rparr>))"

subsection \<open>The shared library: sessions\<close>

record session_data =
  language :: string
  files :: "string \<rightharpoonup> byte list"
  working_dir :: string
  created_at :: nat

record session_manager =
  sessions :: "string \<rightharpoonup> session_data"

definition SessionManager_new :: session_manager where
  "SessionManager_new = \<lparr>sessions = Map.empty\<rparr>"

text \<open>\<open>now\<close> is the reading of \<open>Instant::now()\<close>.\<close>

definition create_session ::
  "session_manager \<Rightarrow> string \<Rightarrow> string \<Rightarrow> nat \<Rightarrow> (string + unit) \<times> session_manager" where
  "create_session self sid lang now =
     (let session = \<lparr>language = lang, files = Map.empty, working_dir = ''/'',
                      created_at = now\<rparr>
      in (Inr (), self\<lparr>sessions := (sessions self)(sid \<mapsto> session)\<rparr>))"

definition get_session :: "session_manager \<Rightarrow> string \<Rightarrow> session_data option" where
  "get_session self sid = sessions self sid"

definition remove_session ::
  "session_manager \<Rightarrow> string \<Rightarrow> session_data option \<times> session_manager" where
  "remove_session self sid =
     (sessions self sid, self\<lparr>sessions := (sessions self)(sid := None)\<rparr>)"

subsection \<open>The executor\<close>

record javascript_executor =
  runtime :: nat
  session_manager :: session_manager

definition JavaScriptExecutor_new ::
  "platform \<Rightarrow> world \<Rightarrow> (anyhow_error + javascript_executor) \<times> world" where
  "JavaScriptExecutor_new p w =
     (case Runtime_new p w of
        (Inl e, w1) \<Rightarrow> (Inl (QuickJsError e), w1)
      | (Inr rt, w1) \<Rightarrow> (Inr \<lparr>runtime = rt, session_manager = SessionManager_new\<rparr>, w1))"

definition setup_javascript_environment :: "platform \<Rightarrow> anyhow_error + unit" where
  "setup_javascript_environment p =
     (case globals_set_console p of
        Some e \<Rightarrow> Inl (QuickJsError e)
      | None \<Rightarrow>
          (case globals_get_console p of
             Some e \<Rightarrow> Inl (QuickJsError e)
           | None \<Rightarrow>
               (case console_set_log p of
                  Some e \<Rightarrow> Inl (QuickJsError e)
                | None \<Rightarrow> Inr ())))"

text \<open>The time budget the executor computes, in milliseconds.\<close>

definition from_millis :: "u64 \<Rightarrow> nat" where
  "from_millis ms = unat ms"

definition from_secs :: "u64 \<Rightarrow> nat" where
  "from_secs s = 1000 * unat s"

definition timeout :: "limits option \<Rightarrow> nat" where
  "timeout lim =
     (case Option.bind lim limits.time_ms of
        Some ms \<Rightarrow> from_millis ms
      | None \<Rightarrow> from_secs 5)"

definition render_output :: "js_value \<Rightarrow> string" where
  "render_output v =
     (case v of
        Undefined \<Rightarrow> ''undefined''
      | Null \<Rightarrow> ''null''
      | JsString s \<Rightarrow> s
      | JsOther dbg \<Rightarrow> dbg)"

text \<open>The closure handed to \<open>context.with\<close>: set the globals up, evaluate, render.\<close>

definition with_context ::
  "platform \<Rightarrow> nat \<Rightarrow> nat \<Rightarrow> string \<Rightarrow> world \<Rightarrow>
     ((rquickjs_error + string) \<times> world) option" where
  "with_context p rt ctx code w =
     (case setup_javascript_environment p of
        Inl e \<Rightarrow> Some (Inl (OtherError (to_string e)), w)
      | Inr _ \<Rightarrow>
          (case ctx_eval p rt ctx code w of
             None \<Rightarrow> None
           | Some (Inl e, w1) \<Rightarrow> Some (Inl e, w1)
           | Some (Inr v, w1) \<Rightarrow> Some (Inr (render_output v), w1)))"

definition execute_code ::
  "platform \<Rightarrow> javascript_executor \<Rightarrow> string \<Rightarrow> limits option \<Rightarrow> world \<Rightarrow>
     ((anyhow_error + result) \<times> world) option" where
  "execute_code p self code lim w =
     (let budget = timeout lim in
      case Context_full p (runtime self) w of
        (Inl e, w1) \<Rightarrow> Some (Inl (QuickJsError e), w1)
      | (Inr ctx, w1) \<Rightarrow>
          (case with_context p (runtime self) ctx code w1 of
             None \<Rightarrow> None
           | Some (Inr out, w2) \<Rightarrow>
               Some (Inr \<lparr>compile = None,
                          run = \<lparr>stdout = out, stderr = [], exit_code = Some 0,
                                 signal = None\<rparr>,
                          time_ms = Some (of_nat (elapsed p)),
                          memory_bytes = None\<rparr>, w2)
           | Some (Inl e, w2) \<Rightarrow>
               Some (Inr \<lparr>compile = None,
                          run = \<lparr>stdout = [], stderr = ''JavaScript Error: '' @ display e,
                                 exit_code = Some 1, signal = None\<rparr>,
                          time_ms = Some (of_nat (elapsed p)),
                          memory_bytes = None\<rparr>, w2)))"

subsection \<open>Sessions of the executor\<close>

record execution_session =
  session_id :: string
  language :: language
  files :: "string \<rightharpoonup> byte list"
  working_dir :: string
  executor :: javascript_executor


definition upload_file ::
  "execution_session \<Rightarrow> source_file \<Rightarrow> (anyhow_error + unit) \<times> execution_session" where
  "upload_file self f = (Inr (), self\<lparr>files := (files self)(name f \<mapsto> content f)\<rparr>)"

definition run_code ::
  "platform \<Rightarrow> execution_session \<Rightarrow> string \<Rightarrow> string list \<Rightarrow> limits option \<Rightarrow> world \<Rightarrow>
     ((anyhow_error + result) \<times> world) option" where
  "run_code p self entrypoint args lim w =
     (case files self entrypoint of
        None \<Rightarrow> Some (Inl (Anyhow (''File not found: '' @ entrypoint)), w)
      | Some code \<Rightarrow>
          (case from_utf8 code of
             Inl e \<Rightarrow> Some (Inl (FromUtf8Error e), w)
           | Inr code_str \<Rightarrow> execute_code p (executor self) code_str lim w))"

subsection \<open>The boundary operation\<close>

definition guest_run ::
  "platform \<Rightarrow> language \<Rightarrow> source_file list \<Rightarrow> string option \<Rightarrow> string list \<Rightarrow>
     (string \<times> string) list \<Rightarrow> limits option \<Rightarrow> world \<Rightarrow>
     ((error + result) \<times> world) option" where
  "guest_run p lang fs stdin args env constraints w =
     (case JavaScriptExecutor_new p w of
        (Inl e, w1) \<Rightarrow> Some (Inl (Internal (to_string e)), w1)
      | (Inr ex, w1) \<Rightarrow>
          (case fs of
             [] \<Rightarrow> Some (Inl (Internal ''No files provided''), w1)
           | main_file # _ \<Rightarrow>
               (case from_utf8 (content main_file) of
                  Inl e \<Rightarrow> Some (Inl (Internal (utf8_error_to_string e)), w1)
                | Inr code \<Rightarrow>
                    (case execute_code p ex code constraints w1 of
                       None \<Rightarrow> None
                     | Some (Inl e, w2) \<Rightarrow> Some (Inl (Internal (to_string e)), w2)
                     | Some (Inr r, w2) \<Rightarrow> Some (Inr r, w2)))))"

subsection \<open>A sample platform\<close>

text \<open>
  A platform on which every construction step succeeds and whose interpreter knows
  four programs: one that never returns, one that throws the string \<open>boom\<close>, one
  whose value is null,
  one whose value is a string. Every other text evaluates to undefined.
\<close>

definition sample_eval :: "string \<Rightarrow> evaluation option" where
  "sample_eval code =
     (if code = ''for(;;);'' then None
      else if code = ''throw \"boom\"'' then Some (Thrown ''boom'')
      else if code = ''null'' then Some (Returned Null)
      else if code = ''hi'' then Some (Returned (JsString ''hi''))
      else Some (Returned Undefined))"

definition sample_platform :: platform where
  "sample_platform =
     \<lparr>runtime_new = None, context_full = None, globals_set_console = None,
      globals_get_console = None, console_set_log = None, eval = sample_eval,
      elapsed = 3, new_v4 = ''00000000-0000-4000-8000-000000000000''\<rparr>"

definition world0 :: world where
  "world0 = \<lparr>next_handle = 0, journal = []\<rparr>"

text \<open>A session on the sample platform: created in the first world, one file uploaded.\<close>

definition main_js :: source_file where
  "main_js = \<lparr>name = ''main.js'', content = as_bytes ''hi''\<rparr>"

definition new_session :: execution_session where
  "new_session =
     \<lparr>session_id = ''00000000-0000-4000-8000-000000000000'', language = JavaScript,
      files = Map.empty, working_dir = ''/'',
      executor = \<lparr>runtime = 0, session_manager = SessionManager_new\<rparr>\<rparr>"

definition sample_session :: execution_session where
  "sample_session = new_session\<lparr>files := [''main.js'' \<mapsto> as_bytes ''hi'']\<rparr>"

definition hi_result :: result where
  "hi_result =
     \<lparr>compile = None,
      run = \<lparr>stdout = ''hi'', stderr = [], exit_code = Some 0, signal = None\<rparr>,
      time_ms = Some 3, memory_bytes = None\<rparr>"

subsection \<open>Worlds whose handles are all in use\<close>


section \<open>Properties\<close>

subsection \<open>What one evaluation does\<close>

lemma execute_code_thrown:
  assumes "context_full p = None" and "setup_javascript_environment p = Inr ()"
    and "eval p code = Some (Thrown thrown)"
  shows "execute_code p self code lim w =
     Some (Inr \<lparr>compile = None,
                run = \<lparr>stdout = [], stderr = ''JavaScript Error: Exception generated by QuickJS'',
                       exit_code = Some 1, signal = None\<rparr>,
                time_ms = Some (of_nat (elapsed p)), memory_bytes = None\<rparr>,
           w\<lparr>next_handle := Suc (next_handle w),
             journal := journal w @ [(runtime self, next_handle w)]\<rparr>)"
  using assms
  by (simp add: execute_code_def Context_full_def with_context_def ctx_eval_def)

lemma execute_code_limits:
  "execute_code p self code lim w = execute_code p self code lim' w"
  by (simp add: execute_code_def)

lemma execute_code_hangs:
  assumes "context_full p = None" and "setup_javascript_environment p = Inr ()"
    and "eval p code = None"
  shows "execute_code p self code lim w = None"
  using assms
  by (simp add: execute_code_def Context_full_def with_context_def ctx_eval_def)

lemma execute_code_memory:
  assumes "execute_code p self code lim w = Some (Inr r, w')"
  shows "memory_bytes r = None"
  using assms
  by (auto simp: execute_code_def Context_full_def Let_def
           split: option.splits sum.splits prod.splits)








subsection \<open>Evaluations on the sample platform\<close>

lemma sample_setup: "setup_javascript_environment sample_platform = Inr ()"
  by (simp add: setup_javascript_environment_def sample_platform_def)

lemma from_utf8_hi: "from_utf8 (as_bytes ''hi'') = Inr ''hi''"
  by code_simp


lemma sample_run_code:
  "run_code sample_platform sample_session ''main.js'' a lim
       \<lparr>next_handle = n, journal = j\<rparr>
     = Some (Inr hi_result, \<lparr>next_handle = Suc n, journal = j @ [(0, n)]\<rparr>)"
proof -
  have f: "files sample_session ''main.js'' = Some (as_bytes ''hi'')"
    by (simp add: sample_session_def)
  show ?thesis
    by (simp add: run_code_def f from_utf8_hi execute_code_def Context_full_def
          with_context_def ctx_eval_def setup_javascript_environment_def
          sample_platform_def sample_eval_def
          render_output_def hi_result_def sample_session_def new_session_def)
qed

lemma sample_guest_run:
  "guest_run sample_platform lang [main_js] i a e lim \<lparr>next_handle = n, journal = j\<rparr>
     = Some (Inr hi_result,
             \<lparr>next_handle = Suc (Suc n), journal = j @ [(n, Suc n)]\<rparr>)"
  by (simp add: guest_run_def JavaScriptExecutor_new_def Runtime_new_def main_js_def
        from_utf8_hi execute_code_def Context_full_def with_context_def ctx_eval_def
        setup_javascript_environment_def sample_platform_def sample_eval_def
        render_output_def hi_result_def)

subsection \<open>Faults of the executed program\<close>

text \<open>
  C1. When the executor and its context are constructed, the globals are set up and
  the first file decodes to a program that throws, the stateless run returns \<open>Ok\<close>
  with a result whose run stage has exit code 1 (not 0); but its stderr is the same
  fixed text whatever was thrown, so the text of the fault is not in it.
\<close>

theorem thrown_text_is_lost:
  assumes "runtime_new p = None" and "context_full p = None"
    and "setup_javascript_environment p = Inr ()"
    and "from_utf8 (content main_file) = Inr code"
    and "eval p code = Some (Thrown thrown)"
  shows "\<exists>r w'. guest_run p lang (main_file # others) stdin args env constraints w
                   = Some (Inr r, w') \<and>
          exit_code (run r) = Some 1 \<and> exit_code (run r) \<noteq> Some 0 \<and>
          stderr (run r) = ''JavaScript Error: Exception generated by QuickJS''"
  using assms
  by (simp add: guest_run_def JavaScriptExecutor_new_def Runtime_new_def execute_code_thrown)

theorem thrown_text_is_lost_witness:
  "from_utf8 (content \<lparr>name = ''main.js'', content = as_bytes ''throw \"boom\"''\<rparr>)
     = Inr ''throw \"boom\"'' \<and>
   eval sample_platform ''throw \"boom\"'' = Some (Thrown ''boom'') \<and>
   (\<exists>r w'. guest_run sample_platform JavaScript
             [\<lparr>name = ''main.js'', content = as_bytes ''throw \"boom\"''\<rparr>] None [] [] None
             world0
             = Some (Inr r, w') \<and>
          exit_code (run r) = Some 1 \<and> exit_code (run r) \<noteq> Some 0 \<and>
          stderr (run r) = ''JavaScript Error: Exception generated by QuickJS'') \<and>
   \<not> sublist ''boom'' ''JavaScript Error: Exception generated by QuickJS''"
proof -
  have h1: "runtime_new sample_platform = None" by (simp add: sample_platform_def)
  have h2: "context_full sample_platform = None" by (simp add: sample_platform_def)
  have h4: "from_utf8 (content \<lparr>name = ''main.js'', content = as_bytes ''throw \"boom\"''\<rparr>)
              = Inr ''throw \"boom\"''"
    by code_simp
  have h5: "eval sample_platform ''throw \"boom\"'' = Some (Thrown ''boom'')"
    by (simp add: sample_platform_def sample_eval_def)
  have n: "\<not> sublist ''boom'' ''JavaScript Error: Exception generated by QuickJS''"
    by code_simp
  from h4 h5 n thrown_text_is_lost [OF h1 h2 sample_setup h4 h5]
  show ?thesis by blast
qed

subsection \<open>Programs that never return\<close>

text \<open>
  C2. The time budget is computed and then never consulted: when the evaluation of
  the program never returns, the stateless run never returns either, whatever the
  limits say.
\<close>

theorem nonterminating_program_never_returns:
  assumes "runtime_new p = None" and "context_full p = None"
    and "setup_javascript_environment p = Inr ()"
    and "from_utf8 (content main_file) = Inr code"
    and "eval p code = None"
  shows "guest_run p lang (main_file # others) stdin args env constraints w = None"
  using assms
  by (simp add: guest_run_def JavaScriptExecutor_new_def Runtime_new_def execute_code_hangs)

theorem nonterminating_program_never_returns_witness:
  "eval sample_platform ''for(;;);'' = None \<and>
   guest_run sample_platform JavaScript
     [\<lparr>name = ''loop.js'', content = as_bytes ''for(;;);''\<rparr>] None [] []
     (Some \<lparr>limits.time_ms = Some 50, limits.memory_bytes = None\<rparr>) world0 = None"
proof -
  have h1: "runtime_new sample_platform = None" by (simp add: sample_platform_def)
  have h2: "context_full sample_platform = None" by (simp add: sample_platform_def)
  have h4: "from_utf8 (content \<lparr>name = ''loop.js'', content = as_bytes ''for(;;);''\<rparr>)
              = Inr ''for(;;);''"
    by code_simp
  have h5: "eval sample_platform ''for(;;);'' = None"
    by (simp add: sample_platform_def sample_eval_def)
  from h5 nonterminating_program_never_returns [OF h1 h2 sample_setup h4 h5]
  show ?thesis by blast
qed

subsection \<open>The entry point\<close>



subsection \<open>The default time budget\<close>

text \<open>
  C4. When the limits are absent, or present without \<open>time_ms\<close>, the time budget
  the executor computes is 5000 milliseconds. The budget governs nothing: the
  executor and the stateless run give the same outcome under any two limits, and a
  program that never returns, run without limits, is not stopped after 5000
  milliseconds or ever.
\<close>

theorem default_budget_not_enforced:
  "timeout None = 5000 \<and>
   timeout (Some \<lparr>limits.time_ms = None, limits.memory_bytes = m\<rparr>) = 5000 \<and>
   execute_code p self code lim w = execute_code p self code lim' w \<and>
   guest_run p lang fs stdin args env lim w = guest_run p lang fs stdin args env lim' w \<and>
   guest_run sample_platform JavaScript
     [\<lparr>name = ''loop.js'', content = as_bytes ''for(;;);''\<rparr>] None [] [] None world0 = None"
proof -
  have a: "timeout None = 5000"
    by (simp add: timeout_def from_secs_def)
  have b: "timeout (Some \<lparr>limits.time_ms = None, limits.memory_bytes = m\<rparr>) = 5000"
    by (simp add: timeout_def from_secs_def)
  have c: "guest_run p lang fs stdin args env lim w = guest_run p lang fs stdin args env lim' w"
    by (simp add: guest_run_def execute_code_limits [of p _ _ lim _ lim']
          split: prod.splits sum.splits list.splits)
  have d: "guest_run sample_platform JavaScript
     [\<lparr>name = ''loop.js'', content = as_bytes ''for(;;);''\<rparr>] None [] [] None world0 = None"
    by code_simp
  from a b c d execute_code_limits [of p self code lim w lim'] show ?thesis by blast
qed

subsection \<open>Which runtime an evaluation runs on\<close>




subsection \<open>Uploads\<close>

text \<open>
  C6. Uploading a file under a name that is already there overwrites it: after the
  uploads of \<open>v1\<close> and then \<open>v2\<close> under the name \<open>n\<close>, the session is the one
  the upload of \<open>v2\<close> alone gives, \<open>v2\<close> is what the name holds, and the names
  held are those from before and \<open>n\<close>, once. The upload itself never fails.
\<close>

theorem upload_last_write_wins:
  "upload_file (snd (upload_file s \<lparr>name = n, content = v1\<rparr>)) \<lparr>name = n, content = v2\<rparr>
     = upload_file s \<lparr>name = n, content = v2\<rparr> \<and>
   files (snd (upload_file (snd (upload_file s \<lparr>name = n, content = v1\<rparr>))
                 \<lparr>name = n, content = v2\<rparr>)) n = Some v2 \<and>
   dom (files (snd (upload_file (snd (upload_file s \<lparr>name = n, content = v1\<rparr>))
                 \<lparr>name = n, content = v2\<rparr>))) = insert n (dom (files s)) \<and>
   fst (upload_file s \<lparr>name = n, content = v2\<rparr>) = Inr ()"
  by (simp add: upload_file_def)

subsection \<open>Entry files that are not text\<close>

text \<open>
  C7, as stated, fails: on an entry file holding the single byte 0xFF the stateless
  run fails with \<open>Internal\<close>, carrying the decoder's message, not with
  \<open>DecodeError\<close>.
\<close>

theorem invalid_utf8_counterexample:
  "guest_run sample_platform JavaScript [\<lparr>name = ''main.js'', content = [0xFF]\<rparr>]
     None [] [] None world0
   = Some (Inl (Internal ''invalid utf-8 sequence of 1 bytes from index 0''),
           \<lparr>next_handle = 1, journal = []\<rparr>)"
  by code_simp

text \<open>
  C7, amended. When the first file is not valid UTF-8, the stateless run fails with
  \<open>Internal\<close>: carrying the decoder's message when the executor was constructed,
  and the construction's own error otherwise.
\<close>

theorem invalid_utf8_is_internal:
  assumes "from_utf8 (content main_file) = Inl e"
  shows "guest_run p lang (main_file # others) stdin args env constraints w
     = (case runtime_new p of
          None \<Rightarrow> Some (Inl (Internal (utf8_error_to_string e)),
                         w\<lparr>next_handle := Suc (next_handle w)\<rparr>)
        | Some m \<Rightarrow> Some (Inl (Internal m), w))"
  using assms
  by (simp add: guest_run_def JavaScriptExecutor_new_def Runtime_new_def split: option.splits)

theorem invalid_utf8_is_internal_witness:
  "from_utf8 (content \<lparr>name = ''main.js'', content = [0xC3]\<rparr>) = Inl (Utf8Error 0 None) \<and>
   guest_run sample_platform Python
     [\<lparr>name = ''main.js'', content = [0xC3]\<rparr>, \<lparr>name = ''b.js'', content = []\<rparr>]
     None [] [] None world0
   = Some (Inl (Internal ''incomplete utf-8 byte sequence from index 0''),
           \<lparr>next_handle = 1, journal = []\<rparr>)"
proof -
  have h: "from_utf8 (content \<lparr>name = ''main.js'', content = [0xC3]\<rparr>) = Inl (Utf8Error 0 None)"
    by code_simp
  have s: "utf8_error_to_string (Utf8Error 0 None) = ''incomplete utf-8 byte sequence from index 0''"
    by code_simp
  show ?thesis
    using h invalid_utf8_is_internal [OF h, of sample_platform Python
        "[\<lparr>name = ''b.js'', content = []\<rparr>]" None "[]" "[]" None world0]
    by (simp only: s) (simp add: sample_platform_def world0_def)
qed

subsection \<open>The memory ceiling\<close>

text \<open>
  C8, as stated, fails: with a memory ceiling of 1024 bytes in the limits, the
  result's \<open>memory_bytes\<close> is absent.
\<close>

theorem memory_ceiling_counterexample:
  "guest_run sample_platform JavaScript [\<lparr>name = ''main.js'', content = as_bytes ''hi''\<rparr>]
     None [] [] (Some \<lparr>limits.time_ms = None, limits.memory_bytes = Some 1024\<rparr>) world0
   = Some (Inr \<lparr>compile = None,
                 run = \<lparr>stdout = ''hi'', stderr = [], exit_code = Some 0, signal = None\<rparr>,
                 time_ms = Some 3, memory_bytes = None\<rparr>,
           \<lparr>next_handle = 2, journal = [(0, 1)]\<rparr>)"
  by code_simp

text \<open>
  C8, amended. Whatever the limits say, every result that a stateless run or a
  session's run returns has no \<open>memory_bytes\<close>.
\<close>

theorem memory_never_reported:
  "(guest_run p lang fs stdin args env constraints w = Some (Inr r, w')
      \<longrightarrow> memory_bytes r = None) \<and>
   (run_code p s entrypoint args' lim w = Some (Inr r, w') \<longrightarrow> memory_bytes r = None)"
proof -
  have a: "memory_bytes r = None"
    if "guest_run p lang fs stdin args env constraints w = Some (Inr r, w')"
    using that
    by (auto simp: guest_run_def JavaScriptExecutor_new_def Runtime_new_def
             split: option.splits sum.splits prod.splits list.splits
             dest: execute_code_memory)
  have b: "memory_bytes r = None"
    if "run_code p s entrypoint args' lim w = Some (Inr r, w')"
    using that
    by (auto simp: run_code_def split: option.splits sum.splits dest: execute_code_memory)
  from a b show ?thesis by blast
qed

theorem memory_never_reported_witness:
  "guest_run sample_platform JavaScript [main_js] None [] []
       (Some \<lparr>limits.time_ms = None, limits.memory_bytes = Some 1024\<rparr>)
       \<lparr>next_handle = 0, journal = []\<rparr>
     = Some (Inr hi_result, \<lparr>next_handle = 2, journal = [(0, 1)]\<rparr>) \<and>
   run_code sample_platform sample_session ''main.js'' []
       (Some \<lparr>limits.time_ms = None, limits.memory_bytes = Some 1024\<rparr>)
       \<lparr>next_handle = 1, journal = []\<rparr>
     = Some (Inr hi_result, \<lparr>next_handle = 2, journal = [(0, 1)]\<rparr>) \<and>
   memory_bytes hi_result = None"
proof -
  let ?lim = "Some \<lparr>limits.time_ms = None, limits.memory_bytes = Some 1024\<rparr>"
  let ?w0 = "\<lparr>next_handle = 0, journal = []\<rparr>"
  let ?w2 = "\<lparr>next_handle = 2, journal = [(0, 1)]\<rparr>"
  have g: "guest_run sample_platform JavaScript [main_js] None [] [] ?lim ?w0
     = Some (Inr hi_result, ?w2)"
    using sample_guest_run [of JavaScript None "[]" "[]" ?lim 0 "[]"] by simp
  have r: "run_code sample_platform sample_session ''main.js'' [] ?lim
       \<lparr>next_handle = 1, journal = []\<rparr> = Some (Inr hi_result, ?w2)"
    using sample_run_code [of "[]" ?lim 1 "[]"] by (simp add: eval_nat_numeral)
  have m: "memory_bytes hi_result = None"
    using memory_never_reported [where p = sample_platform and lang = JavaScript
        and fs = "[main_js]" and stdin = None and args = "[]" and env = "[]"
        and constraints = ?lim and w = ?w0 and r = hi_result and w' = ?w2] g
    by blast
  from g r m show ?thesis by blast
qed

subsection \<open>Inputs the stateless run never reads\<close>

text \<open>
  C9. Two stateless runs that differ only in \<open>stdin\<close>, \<open>args\<close> and \<open>env\<close> have the
  same outcome: the same returned value and final world, or both never return.
\<close>

theorem run_ignores_stdin_args_env:
  "guest_run p lang fs stdin args env constraints w =
   guest_run p lang fs stdin' args' env' constraints w"
  by (simp add: guest_run_def)

subsection \<open>Creating a session\<close>

text \<open>
  C10. \<open>create_session\<close> returns \<open>Ok\<close> for every id. Afterwards the id holds a
  fresh session with no files, whatever it held before; every other id holds what it
  held.
\<close>

theorem create_session_replaces:
  "fst (create_session self sid lang now) = Inr () \<and>
   get_session (snd (create_session self sid lang now)) other =
     (if other = sid
      then Some \<lparr>session_data.language = lang, session_data.files = Map.empty,
                  session_data.working_dir = ''/'', created_at = now\<rparr>
      else get_session self other)"
  by (simp add: create_session_def get_session_def Let_def)

end
